theory Spec2Isabelle
  imports Main "HOL-Library.Product_Lexorder"
begin

section \<open>Data model of app.py\<close>

text \<open>
  The two SQLAlchemy models of \<^verbatim>\<open>app.py\<close> are records. A Python \<^verbatim>\<open>date\<close> has a year,
  a month and a day; a \<^verbatim>\<open>datetime\<close> is a subclass of \<^verbatim>\<open>date\<close> with a time of day, which
  the record extension mirrors (the format \<^verbatim>\<open>%Y-%m-%dT%H:%M\<close> leaves seconds and
  microseconds at zero, so they are not carried).
\<close>

record date =
  year :: nat
  month :: nat
  day :: nat

record datetime = date +
  hour :: nat
  minute :: nat

text \<open>\<^verbatim>\<open>class Paciente(db.Model)\<close>: the column \<^verbatim>\<open>id\<close> is named \<open>paciente_id\<close> here.\<close>

record Paciente =
  paciente_id :: nat
  nombre :: string
  cedula :: string
  fecha_nacimiento :: date

text \<open>\<^verbatim>\<open>class Cita(db.Model)\<close>: the column \<^verbatim>\<open>id\<close> is named \<open>cita_id\<close> here.\<close>

record Cita =
  cita_id :: nat
  fecha_cita :: datetime
  motivo :: string
  paciente_cedula :: string

text \<open>
  The database: the rows of each table, in the order a \<^verbatim>\<open>SELECT\<close> without
  \<^verbatim>\<open>ORDER BY\<close> returns them (ascending row id; a new row is appended).
\<close>

record db =
  tabla_paciente :: "Paciente list"
  tabla_cita :: "Cita list"

text \<open>
  The outcomes the handlers report through \<^verbatim>\<open>flash\<close>. Each failure message of the source
  is one constructor:
  \<^item> \<open>InvalidDateFormat\<close>: \<^verbatim>\<open>'Formato de fecha de nacimiento inv\'alido. Use AAAA-MM-DD.'\<close>
  \<^item> \<open>InvalidDateTimeFormat\<close>: \<^verbatim>\<open>'Formato de fecha y hora de cita inv\'alido. ...'\<close>
  \<^item> \<open>DuplicateIdentifier\<close>: \<^verbatim>\<open>'La c\'edula ya est\'a registrada. ...'\<close> and
    \<^verbatim>\<open>'La nueva c\'edula ya est\'a registrada por otro paciente.'\<close>
  \<^item> \<open>NotFound\<close>: \<^verbatim>\<open>'Paciente no encontrado.'\<close> and \<^verbatim>\<open>'Paciente no encontrado para eliminar.'\<close>
  \<^item> \<open>PatientNotFound\<close>: \<^verbatim>\<open>'El paciente seleccionado no existe.'\<close>
\<close>

datatype error =
  InvalidDateFormat | InvalidDateTimeFormat | DuplicateIdentifier | NotFound | PatientNotFound

section \<open>The library function datetime.strptime on the two formats of app.py\<close>

text \<open>
  \<^verbatim>\<open>datetime.strptime\<close> turns the format into a regular expression, matches it at the
  start of the text with a backtracking matcher, raises \<^verbatim>\<open>ValueError\<close> when nothing matches
  or when text remains after the match, and raises \<^verbatim>\<open>ValueError\<close> again when the fields
  are no calendar date. A pattern is modelled by the list of its matches in the order
  the matcher tries them: each is the number read and the rest of the text. Texts are
  \<open>char list\<close>s, so only 8-bit characters are covered.
\<close>

type_synonym 'a patron = "string \<Rightarrow> ('a \<times> string) list"

definition digit_val :: "char \<Rightarrow> nat" where
  "digit_val c = of_char c - 48"

text \<open>One character out of \<open>A\<close>, read as a digit: \<^verbatim>\<open>[1-9]\<close>, \<^verbatim>\<open>\d\<close>.\<close>

fun uno :: "string \<Rightarrow> nat patron" where
  "uno A (a # r) = (if a \<in> set A then [(digit_val a, r)] else [])"
| "uno A [] = []"

text \<open>Two characters, the first out of \<open>A\<close> and the second out of \<open>B\<close>: \<^verbatim>\<open>1[0-2]\<close>, \<^verbatim>\<open>[0-5]\d\<close>.\<close>

fun dos :: "string \<Rightarrow> string \<Rightarrow> nat patron" where
  "dos A B (a # b # r) =
     (if a \<in> set A \<and> b \<in> set B then [(10 * digit_val a + digit_val b, r)] else [])"
| "dos A B _ = []"

text \<open>A literal character of the format; the expression is compiled with
  \<^verbatim>\<open>re.IGNORECASE\<close>, so the letter \<^verbatim>\<open>T\<close> also matches \<^verbatim>\<open>t\<close>.\<close>

fun literal :: "string \<Rightarrow> unit patron" where
  "literal A (a # r) = (if a \<in> set A then [((), r)] else [])"
| "literal A [] = []"

definition luego :: "'a patron \<Rightarrow> ('a \<Rightarrow> 'b patron) \<Rightarrow> 'b patron" where
  "luego p f s = concat (map (\<lambda>(a, r). f a r) (p s))"

definition devuelve :: "'a \<Rightarrow> 'a patron" where
  "devuelve a s = [(a, s)]"

text \<open>\<^verbatim>\<open>%Y\<close> is \<^verbatim>\<open>\d\d\d\d\<close>.\<close>

fun re_Y :: "nat patron" where
  "re_Y (a # b # c # d # r) =
     (if a \<in> set ''0123456789'' \<and> b \<in> set ''0123456789'' \<and>
         c \<in> set ''0123456789'' \<and> d \<in> set ''0123456789''
      then [(1000 * digit_val a + 100 * digit_val b + 10 * digit_val c + digit_val d, r)]
      else [])"
| "re_Y _ = []"

text \<open>\<^verbatim>\<open>%m\<close> is \<^verbatim>\<open>1[0-2]|0[1-9]|[1-9]\<close>.\<close>

definition re_m :: "nat patron" where
  "re_m s = dos ''1'' ''012'' s @ dos ''0'' ''123456789'' s @ uno ''123456789'' s"

text \<open>\<^verbatim>\<open>%d\<close> is \<^verbatim>\<open>3[0-1]|[1-2]\d|0[1-9]|[1-9]| [1-9]\<close>; \<^verbatim>\<open>int\<close> ignores the blank of the
  last alternative.\<close>

definition re_d :: "nat patron" where
  "re_d s = dos ''3'' ''01'' s @ dos ''12'' ''0123456789'' s @ dos ''0'' ''123456789'' s
            @ uno ''123456789'' s @ luego (literal '' '') (\<lambda>_. uno ''123456789'') s"

text \<open>\<^verbatim>\<open>%H\<close> is \<^verbatim>\<open>2[0-3]|[0-1]\d|\d\<close>.\<close>

definition re_H :: "nat patron" where
  "re_H s = dos ''2'' ''0123'' s @ dos ''01'' ''0123456789'' s @ uno ''0123456789'' s"

text \<open>\<^verbatim>\<open>%M\<close> is \<^verbatim>\<open>[0-5]\d|\d\<close>.\<close>

definition re_M :: "nat patron" where
  "re_M s = dos ''012345'' ''0123456789'' s @ uno ''0123456789'' s"

text \<open>The first match decides; text left after it is \<^verbatim>\<open>ValueError\<close>
  (\<^verbatim>\<open>unconverted data remains\<close>).\<close>

definition coincide :: "'a patron \<Rightarrow> string \<Rightarrow> 'a option" where
  "coincide p s = (case p s of [] \<Rightarrow> None | (a, r) # _ \<Rightarrow> (if r = [] then Some a else None))"

definition es_bisiesto :: "nat \<Rightarrow> bool" where
  "es_bisiesto y = (y mod 4 = 0 \<and> (y mod 100 \<noteq> 0 \<or> y mod 400 = 0))"

definition dias_del_mes :: "nat \<Rightarrow> nat \<Rightarrow> nat" where
  "dias_del_mes y m =
     (if m = 2 then (if es_bisiesto y then 29 else 28)
      else if m \<in> {4, 6, 9, 11} then 30 else 31)"

text \<open>The constructor \<^verbatim>\<open>date(year, month, day)\<close> raises \<^verbatim>\<open>ValueError\<close> outside the
  calendar; \<^verbatim>\<open>MINYEAR\<close> is 1.\<close>

definition fecha_valida :: "nat \<Rightarrow> nat \<Rightarrow> nat \<Rightarrow> bool" where
  "fecha_valida y m d = (1 \<le> y \<and> y \<le> 9999 \<and> 1 \<le> m \<and> m \<le> 12 \<and> 1 \<le> d \<and> d \<le> dias_del_mes y m)"

text \<open>\<^verbatim>\<open>datetime.strptime(s, '%Y-%m-%d').date()\<close>; \<open>None\<close> is \<^verbatim>\<open>ValueError\<close>.\<close>

definition strptime_date :: "string \<Rightarrow> date option" where
  "strptime_date s =
     (case coincide
        (luego re_Y (\<lambda>y. luego (literal ''-'') (\<lambda>_. luego re_m (\<lambda>m.
         luego (literal ''-'') (\<lambda>_. luego re_d (\<lambda>d. devuelve (y, m, d))))))) s
      of None \<Rightarrow> None
       | Some (y, m, d) \<Rightarrow>
           (if fecha_valida y m d then Some \<lparr>year = y, month = m, day = d\<rparr> else None))"

text \<open>\<^verbatim>\<open>datetime.strptime(s, '%Y-%m-%dT%H:%M')\<close>; \<open>None\<close> is \<^verbatim>\<open>ValueError\<close>.\<close>

definition strptime_datetime :: "string \<Rightarrow> datetime option" where
  "strptime_datetime s =
     (case coincide
        (luego re_Y (\<lambda>y. luego (literal ''-'') (\<lambda>_. luego re_m (\<lambda>m.
         luego (literal ''-'') (\<lambda>_. luego re_d (\<lambda>d. luego (literal ''Tt'') (\<lambda>_.
         luego re_H (\<lambda>h. luego (literal '':'') (\<lambda>_. luego re_M (\<lambda>mi.
         devuelve (y, m, d, h, mi))))))))))) s
      of None \<Rightarrow> None
       | Some (y, m, d, h, mi) \<Rightarrow>
           (if fecha_valida y m d
            then Some \<lparr>year = y, month = m, day = d, hour = h, minute = mi\<rparr> else None))"

section \<open>Queries and session operations\<close>

text \<open>\<^verbatim>\<open>Paciente.query.filter_by(cedula=c).first()\<close>\<close>

definition paciente_por_cedula :: "db \<Rightarrow> string \<Rightarrow> Paciente option" where
  "paciente_por_cedula d c = find (\<lambda>p. cedula p = c) (tabla_paciente d)"

text \<open>A row inserted without an id gets the largest id of the table plus one
  (an \<^verbatim>\<open>INTEGER PRIMARY KEY\<close> of SQLite).\<close>

definition nuevo_id :: "nat list \<Rightarrow> nat" where
  "nuevo_id ids = fold max ids 0 + 1"

text \<open>The order of \<^verbatim>\<open>ORDER BY fecha_cita\<close>: dates and times compare field by field.\<close>

definition clave_fecha :: "datetime \<Rightarrow> nat \<times> nat \<times> nat \<times> nat \<times> nat" where
  "clave_fecha t = (year t, month t, day t, hour t, minute t)"

text \<open>\<^verbatim>\<open>Cita.query.order_by(Cita.fecha_cita.asc()).all()\<close>; rows with equal
  \<^verbatim>\<open>fecha_cita\<close> stay in table order.\<close>

definition citas_asc :: "db \<Rightarrow> Cita list" where
  "citas_asc d = sort_key (\<lambda>c. clave_fecha (fecha_cita c)) (tabla_cita d)"

text \<open>\<^verbatim>\<open>Cita.query.order_by(Cita.fecha_cita.desc()).all()\<close>\<close>

definition citas_desc :: "db \<Rightarrow> Cita list" where
  "citas_desc d = rev (sort_key (\<lambda>c. clave_fecha (fecha_cita c)) (rev (tabla_cita d)))"

text \<open>\<^verbatim>\<open>db.session.delete(cita)\<close> followed by the commit: the row with that primary key
  goes.\<close>

definition delete_cita :: "Cita \<Rightarrow> db \<Rightarrow> db" where
  "delete_cita x d = d\<lparr>tabla_cita := filter (\<lambda>c. cita_id c \<noteq> cita_id x) (tabla_cita d)\<rparr>"

text \<open>\<^verbatim>\<open>db.session.delete(paciente)\<close> followed by the commit: the relationship
  \<^verbatim>\<open>citas\<close> (\<^verbatim>\<open>cascade="all, delete-orphan"\<close>) loads the appointments whose
  \<^verbatim>\<open>paciente_cedula\<close> is the patient's \<^verbatim>\<open>cedula\<close> and deletes each, then the patient's
  row goes, all in one transaction.\<close>

definition delete_paciente :: "Paciente \<Rightarrow> db \<Rightarrow> db" where
  "delete_paciente p d =
     (let hijas = filter (\<lambda>c. paciente_cedula c = cedula p) (tabla_cita d);
          d1 = fold delete_cita hijas d
      in d1\<lparr>tabla_paciente := filter (\<lambda>q. paciente_id q \<noteq> paciente_id p) (tabla_paciente d1)\<rparr>)"

section \<open>The request handlers (POST)\<close>

text \<open>Each handler takes the database and the form fields, and returns what it reports
  together with the database after it.\<close>

text \<open>\<^verbatim>\<open>registrar\<close>, lines 57 to 82.\<close>

definition registrar :: "db \<Rightarrow> string \<Rightarrow> string \<Rightarrow> string \<Rightarrow> (error + unit) \<times> db" where
  "registrar d nombre_f cedula_f fecha_nacimiento_str =
     (case strptime_date fecha_nacimiento_str of
        None \<Rightarrow> (Inl InvalidDateFormat, d)
      | Some fecha \<Rightarrow>
          (case paciente_por_cedula d cedula_f of
             Some _ \<Rightarrow> (Inl DuplicateIdentifier, d)
           | None \<Rightarrow>
               (Inr (),
                d\<lparr>tabla_paciente := tabla_paciente d @
                    [\<lparr>paciente_id = nuevo_id (map paciente_id (tabla_paciente d)),
                      nombre = nombre_f, cedula = cedula_f, fecha_nacimiento = fecha\<rparr>]\<rparr>)))"

text \<open>The retention step of \<^verbatim>\<open>citas\<close>, lines 119 to 127: the number of deleted
  appointments and the database after it.\<close>

definition limpiar_citas :: "db \<Rightarrow> nat \<times> db" where
  "limpiar_citas d =
     (let todas_las_citas = citas_asc d
      in if length todas_las_citas > 20
         then (let citas_a_eliminar_count = length todas_las_citas - 20
               in (citas_a_eliminar_count,
                   fold (\<lambda>i. delete_cita (todas_las_citas ! i)) [0..<citas_a_eliminar_count] d))
         else (0, d))"

text \<open>\<^verbatim>\<open>citas\<close>, lines 95 to 130. Success carries the number of appointments the
  retention step deleted.\<close>

definition citas :: "db \<Rightarrow> string \<Rightarrow> string \<Rightarrow> string \<Rightarrow> (error + nat) \<times> db" where
  "citas d paciente_cedula_f fecha_cita_str motivo_f =
     (case strptime_datetime fecha_cita_str of
        None \<Rightarrow> (Inl InvalidDateTimeFormat, d)
      | Some fecha \<Rightarrow>
          (case paciente_por_cedula d paciente_cedula_f of
             None \<Rightarrow> (Inl PatientNotFound, d)
           | Some _ \<Rightarrow>
               (let nueva_cita = \<lparr>cita_id = nuevo_id (map cita_id (tabla_cita d)),
                                  fecha_cita = fecha, motivo = motivo_f,
                                  paciente_cedula = paciente_cedula_f\<rparr>;
                    d1 = d\<lparr>tabla_cita := tabla_cita d @ [nueva_cita]\<rparr>;
                    (n, d2) = limpiar_citas d1
                in (Inr n, d2))))"

text \<open>\<^verbatim>\<open>modificar_paciente\<close>, lines 150 to 182.\<close>

definition modificar_paciente ::
  "db \<Rightarrow> string \<Rightarrow> string \<Rightarrow> string \<Rightarrow> string \<Rightarrow> (error + unit) \<times> db" where
  "modificar_paciente d cedula_url nuevo_nombre nueva_cedula nueva_fecha_nacimiento_str =
     (case paciente_por_cedula d cedula_url of
        None \<Rightarrow> (Inl NotFound, d)
      | Some paciente_a_modificar \<Rightarrow>
          (case strptime_date nueva_fecha_nacimiento_str of
             None \<Rightarrow> (Inl InvalidDateFormat, d)
           | Some nueva_fecha_nacimiento \<Rightarrow>
               (if nueva_cedula \<noteq> cedula_url \<and> paciente_por_cedula d nueva_cedula \<noteq> None
                then (Inl DuplicateIdentifier, d)
                else (Inr (),
                      d\<lparr>tabla_paciente :=
                          map (\<lambda>p. if paciente_id p = paciente_id paciente_a_modificar
                                   then p\<lparr>nombre := nuevo_nombre, cedula := nueva_cedula,
                                          fecha_nacimiento := nueva_fecha_nacimiento\<rparr>
                                   else p)
                              (tabla_paciente d)\<rparr>))))"

text \<open>\<^verbatim>\<open>eliminar_paciente\<close>, lines 194 to 203.\<close>

definition eliminar_paciente :: "db \<Rightarrow> string \<Rightarrow> (error + unit) \<times> db" where
  "eliminar_paciente d cedula_url =
     (case paciente_por_cedula d cedula_url of
        Some paciente_a_eliminar \<Rightarrow> (Inr (), delete_paciente paciente_a_eliminar d)
      | None \<Rightarrow> (Inl NotFound, d))"

text \<open>The constraints the schema declares and the database enforces: primary keys are
  unique in each table and \<^verbatim>\<open>cedula\<close> is \<^verbatim>\<open>unique=True\<close>.\<close>

definition esquema_ok :: "db \<Rightarrow> bool" where
  "esquema_ok d =
     (distinct (map paciente_id (tabla_paciente d)) \<and>
      distinct (map cedula (tabla_paciente d)) \<and>
      distinct (map cita_id (tabla_cita d)))"

text \<open>Invariant I2 of the specification: every appointment refers to a patient of the
  table.\<close>

definition referencias_ok :: "db \<Rightarrow> bool" where
  "referencias_ok d =
     list_all (\<lambda>c. paciente_cedula c \<in> set (map cedula (tabla_paciente d))) (tabla_cita d)"

section \<open>Example states\<close>

definition paciente_ana :: Paciente where
  "paciente_ana = \<lparr>paciente_id = 1, nombre = ''Ana'', cedula = ''V123'',
                    fecha_nacimiento = \<lparr>year = 1990, month = 5, day = 20\<rparr>\<rparr>"

definition paciente_bob :: Paciente where
  "paciente_bob = \<lparr>paciente_id = 2, nombre = ''Bob'', cedula = ''V456'',
                    fecha_nacimiento = \<lparr>year = 1985, month = 1, day = 2\<rparr>\<rparr>"

text \<open>Two patients and one appointment of the first.\<close>

definition db_ejemplo :: db where
  "db_ejemplo =
     \<lparr>tabla_paciente = [paciente_ana, paciente_bob],
      tabla_cita =
        [\<lparr>cita_id = 1, fecha_cita = \<lparr>year = 2024, month = 1, day = 10, hour = 9, minute = 0\<rparr>,
          motivo = ''Checkup'', paciente_cedula = ''V123''\<rparr>]\<rparr>"

text \<open>One patient with 20 appointments, on the first 20 days of February 2024.\<close>

definition db_lleno :: db where
  "db_lleno =
     \<lparr>tabla_paciente = [paciente_ana],
      tabla_cita =
        map (\<lambda>i. \<lparr>cita_id = i,
                   fecha_cita = \<lparr>year = 2024, month = 2, day = i, hour = 9, minute = 0\<rparr>,
                   motivo = ''Control'', paciente_cedula = ''V123''\<rparr>) [1..<21]\<rparr>"

text \<open>One patient and no appointment; 25 requests for that patient, one day apart.\<close>

definition db_inicial :: db where
  "db_inicial = \<lparr>tabla_paciente = [paciente_ana], tabla_cita = []\<rparr>"

definition solicitudes25 :: "(string \<times> string) list" where
  "solicitudes25 = map (\<lambda>s. (s, ''Control''))
     [''2024-01-01T09:00'', ''2024-01-02T09:00'', ''2024-01-03T09:00'', ''2024-01-04T09:00'',
      ''2024-01-05T09:00'', ''2024-01-06T09:00'', ''2024-01-07T09:00'', ''2024-01-08T09:00'',
      ''2024-01-09T09:00'', ''2024-01-10T09:00'', ''2024-01-11T09:00'', ''2024-01-12T09:00'',
      ''2024-01-13T09:00'', ''2024-01-14T09:00'', ''2024-01-15T09:00'', ''2024-01-16T09:00'',
      ''2024-01-17T09:00'', ''2024-01-18T09:00'', ''2024-01-19T09:00'', ''2024-01-20T09:00'',
      ''2024-01-21T09:00'', ''2024-01-22T09:00'', ''2024-01-23T09:00'', ''2024-01-24T09:00'',
      ''2024-01-25T09:00'']"

definition fechas25 :: "datetime list" where
  "fechas25 = map (\<lambda>i. \<lparr>year = 2024, month = 1, day = i, hour = 9, minute = 0\<rparr>) [1..<26]"

section \<open>Basic facts\<close>

lemmas ejemplo_defs = db_ejemplo_def paciente_ana_def paciente_bob_def

lemma esquema_ejemplo: "esquema_ok db_ejemplo"
  by (simp add: esquema_ok_def ejemplo_defs)

lemma strptime_1985: "strptime_date ''1985-01-02'' = Some \<lparr>year = 1985, month = 1, day = 2\<rparr>"
  by code_simp

lemma strptime_malo: "strptime_date ''20/05/1990'' = None"
  by code_simp

lemma strptime_cita:
  "strptime_datetime ''2024-01-10T09:00'' =
     Some \<lparr>year = 2024, month = 1, day = 10, hour = 9, minute = 0\<rparr>"
  by code_simp

lemma paciente_por_cedula_Some:
  "p \<in> set (tabla_paciente d) \<Longrightarrow> \<exists>q. paciente_por_cedula d (cedula p) = Some q"
  unfolding paciente_por_cedula_def
  by (cases "find (\<lambda>q. cedula q = cedula p) (tabla_paciente d)") (auto simp: find_None_iff)

lemma paciente_por_cedula_SomeD:
  "paciente_por_cedula d c = Some q \<Longrightarrow> q \<in> set (tabla_paciente d) \<and> cedula q = c"
  unfolding paciente_por_cedula_def by (auto simp: find_Some_iff)

lemma esquema_cedula_inj:
  assumes "esquema_ok d" and "a \<in> set (tabla_paciente d)" and "b \<in> set (tabla_paciente d)"
    and "cedula a = cedula b"
  shows "a = b"
  using assms by (auto simp: esquema_ok_def distinct_map inj_on_def)

section \<open>Texts in the form the browser sends\<close>

text \<open>A text of two-digit fields, \<^verbatim>\<open>YYYY-MM-DD\<close> or \<^verbatim>\<open>YYYY-MM-DDTHH:MM\<close>, that denotes a
  calendar date (and a time of day) parses to that date: the first match of every pattern
  is the two-digit one, and the later alternatives fail on the rest of the text.\<close>

lemma digito_clases:
  assumes "c \<in> set ''0123456789''"
  shows "(c \<in> set ''0'') = (digit_val c = 0)"
    and "(c \<in> set ''1'') = (digit_val c = 1)"
    and "(c \<in> set ''2'') = (digit_val c = 2)"
    and "(c \<in> set ''3'') = (digit_val c = 3)"
    and "(c \<in> set ''01'') = (digit_val c \<le> 1)"
    and "(c \<in> set ''12'') = (1 \<le> digit_val c \<and> digit_val c \<le> 2)"
    and "(c \<in> set ''012'') = (digit_val c \<le> 2)"
    and "(c \<in> set ''0123'') = (digit_val c \<le> 3)"
    and "(c \<in> set ''012345'') = (digit_val c \<le> 5)"
    and "(c \<in> set ''123456789'') = (1 \<le> digit_val c)"
    and "(c \<in> set ''0123456789'') = True"
    and "(c \<in> set '' '') = False"
    and "(c \<in> set ''-'') = False"
    and "(c \<in> set ''Tt'') = False"
    and "(c \<in> set '':'') = False"
    and "(c = CHR ''0'') = (digit_val c = 0)"
    and "(c = CHR ''1'') = (digit_val c = 1)"
    and "digit_val c \<le> 9"
proof -
  from assms have "c = CHR ''0'' \<or> c = CHR ''1'' \<or> c = CHR ''2'' \<or> c = CHR ''3'' \<or>
      c = CHR ''4'' \<or> c = CHR ''5'' \<or> c = CHR ''6'' \<or> c = CHR ''7'' \<or> c = CHR ''8'' \<or>
      c = CHR ''9''" by simp
  then show "(c \<in> set ''0'') = (digit_val c = 0)"
    and "(c \<in> set ''1'') = (digit_val c = 1)"
    and "(c \<in> set ''2'') = (digit_val c = 2)"
    and "(c \<in> set ''3'') = (digit_val c = 3)"
    and "(c \<in> set ''01'') = (digit_val c \<le> 1)"
    and "(c \<in> set ''12'') = (1 \<le> digit_val c \<and> digit_val c \<le> 2)"
    and "(c \<in> set ''012'') = (digit_val c \<le> 2)"
    and "(c \<in> set ''0123'') = (digit_val c \<le> 3)"
    and "(c \<in> set ''012345'') = (digit_val c \<le> 5)"
    and "(c \<in> set ''123456789'') = (1 \<le> digit_val c)"
    and "(c \<in> set ''0123456789'') = True"
    and "(c \<in> set '' '') = False"
    and "(c \<in> set ''-'') = False"
    and "(c \<in> set ''Tt'') = False"
    and "(c \<in> set '':'') = False"
    and "(c = CHR ''0'') = (digit_val c = 0)"
    and "(c = CHR ''1'') = (digit_val c = 1)"
    and "digit_val c \<le> 9"
    by (elim disjE; simp add: digit_val_def)+
qed



lemma re_m_dos:
  assumes "e \<in> set ''0123456789''" and "f \<in> set ''0123456789''"
    and "1 \<le> 10 * digit_val e + digit_val f" and "10 * digit_val e + digit_val f \<le> 12"
  shows "re_m (e # f # r) =
           (10 * digit_val e + digit_val f, r) # (if digit_val e = 1 then [(1, f # r)] else [])"
proof -
  have "re_m (e # f # r) =
          (if digit_val e = 1 \<and> digit_val f \<le> 2 then [(10 * digit_val e + digit_val f, r)] else [])
        @ (if digit_val e = 0 \<and> 1 \<le> digit_val f then [(10 * digit_val e + digit_val f, r)] else [])
        @ (if 1 \<le> digit_val e then [(digit_val e, f # r)] else [])"
    by (simp only: re_m_def dos.simps uno.simps digito_clases [OF assms(1)] digito_clases [OF assms(2)])
  moreover have "digit_val e = 0 \<or> digit_val e = 1" using assms(4) by arith
  ultimately show ?thesis
    using assms(3,4) digito_clases(18) [OF assms(2)] by auto
qed

lemma re_d_dos:
  assumes "g \<in> set ''0123456789''" and "h \<in> set ''0123456789''"
    and "1 \<le> 10 * digit_val g + digit_val h" and "10 * digit_val g + digit_val h \<le> 31"
  shows "\<exists>resto. re_d (g # h # r) = (10 * digit_val g + digit_val h, r) # resto"
proof -
  have "re_d (g # h # r) =
          (if digit_val g = 3 \<and> digit_val h \<le> 1 then [(10 * digit_val g + digit_val h, r)] else [])
        @ (if (1 \<le> digit_val g \<and> digit_val g \<le> 2) \<and> True then [(10 * digit_val g + digit_val h, r)] else [])
        @ (if digit_val g = 0 \<and> 1 \<le> digit_val h then [(10 * digit_val g + digit_val h, r)] else [])
        @ (if 1 \<le> digit_val g then [(digit_val g, h # r)] else [])
        @ luego (literal '' '') (\<lambda>_. uno ''123456789'') (g # h # r)"
    by (simp only: re_d_def dos.simps uno.simps digito_clases [OF assms(1)] digito_clases [OF assms(2)])
  moreover have "digit_val g = 0 \<or> digit_val g = 1 \<or> digit_val g = 2 \<or> digit_val g = 3"
    using assms(4) by arith
  ultimately show ?thesis
    using assms(3,4) digito_clases(18) [OF assms(2)] by auto
qed

lemma re_H_dos:
  assumes "i \<in> set ''0123456789''" and "j \<in> set ''0123456789''"
    and "10 * digit_val i + digit_val j \<le> 23"
  shows "re_H (i # j # r) = [(10 * digit_val i + digit_val j, r), (digit_val i, j # r)]"
proof -
  have "re_H (i # j # r) =
          (if digit_val i = 2 \<and> digit_val j \<le> 3 then [(10 * digit_val i + digit_val j, r)] else [])
        @ (if digit_val i \<le> 1 \<and> True then [(10 * digit_val i + digit_val j, r)] else [])
        @ (if True then [(digit_val i, j # r)] else [])"
    by (simp only: re_H_def dos.simps uno.simps digito_clases [OF assms(1)] digito_clases [OF assms(2)])
  moreover have "digit_val i = 0 \<or> digit_val i = 1 \<or> digit_val i = 2"
    using assms(3) by arith
  ultimately show ?thesis
    using assms(3) digito_clases(18) [OF assms(2)] by auto
qed

lemma re_M_dos:
  assumes "k \<in> set ''0123456789''" and "l \<in> set ''0123456789''"
    and "10 * digit_val k + digit_val l \<le> 59"
  shows "\<exists>resto. re_M (k # l # r) = (10 * digit_val k + digit_val l, r) # resto"
proof -
  have "re_M (k # l # r) =
          (if digit_val k \<le> 5 \<and> True then [(10 * digit_val k + digit_val l, r)] else [])
        @ (if True then [(digit_val k, l # r)] else [])"
    by (simp only: re_M_def dos.simps uno.simps digito_clases [OF assms(1)] digito_clases [OF assms(2)])
  moreover have "digit_val k \<le> 5" using assms(3) by arith
  ultimately show ?thesis by simp
qed


lemma re_Y_cuatro:
  assumes "a \<in> set ''0123456789''" and "b \<in> set ''0123456789''"
    and "c \<in> set ''0123456789''" and "d \<in> set ''0123456789''"
  shows "re_Y (a # b # c # d # r) =
           [(1000 * digit_val a + 100 * digit_val b + 10 * digit_val c + digit_val d, r)]"
  by (simp only: re_Y.simps assms if_True simp_thms)

lemma luego_literal: "x \<in> set A \<Longrightarrow> luego (literal A) f (x # r) = f () r"
  by (simp add: luego_def)

lemma luego_cabeza:
  assumes "p s = (a, r) # R" and "f a r = x # X"
  shows "\<exists>Z. luego p f s = x # Z"
  using assms by (simp add: luego_def)

lemma coincide_cabeza: "p s = (a, []) # R \<Longrightarrow> coincide p s = Some a"
  by (simp add: coincide_def)

lemma strptime_date_canonico:
  assumes "a \<in> set ''0123456789''" and "b \<in> set ''0123456789''"
    and "c \<in> set ''0123456789''" and "d \<in> set ''0123456789''"
    and "e \<in> set ''0123456789''" and "f \<in> set ''0123456789''"
    and "g \<in> set ''0123456789''" and "h \<in> set ''0123456789''"
    and "fecha_valida (1000 * digit_val a + 100 * digit_val b + 10 * digit_val c + digit_val d)
           (10 * digit_val e + digit_val f) (10 * digit_val g + digit_val h)"
  shows "strptime_date [a, b, c, d, CHR ''-'', e, f, CHR ''-'', g, h] =
           Some \<lparr>year = 1000 * digit_val a + 100 * digit_val b + 10 * digit_val c + digit_val d,
                 month = 10 * digit_val e + digit_val f, day = 10 * digit_val g + digit_val h\<rparr>"
proof -
  define Y where "Y = 1000 * digit_val a + 100 * digit_val b + 10 * digit_val c + digit_val d"
  define M where "M = 10 * digit_val e + digit_val f"
  define D where "D = 10 * digit_val g + digit_val h"
  have v: "fecha_valida Y M D" using assms(9) by (simp add: Y_def M_def D_def)
  then have bM: "1 \<le> M" "M \<le> 12" and bD: "1 \<le> D" "D \<le> 31"
    by (auto simp: fecha_valida_def dias_del_mes_def split: if_splits)
  obtain R5 where r5: "re_d [g, h] = (D, []) # R5"
    using re_d_dos [OF assms(7,8), of "[]"] bD by (auto simp: D_def)
  have "\<exists>Z. luego re_d (\<lambda>dd. devuelve (Y, M, dd)) [g, h] = ((Y, M, D), []) # Z"
    by (simp add: luego_def [of re_d] r5 devuelve_def)
  then have "\<exists>Z. luego (literal ''-'') (\<lambda>_. luego re_d (\<lambda>dd. devuelve (Y, M, dd)))
               [CHR ''-'', g, h] = ((Y, M, D), []) # Z"
    by (simp add: luego_literal)
  then obtain Z4 where z4: "luego (literal ''-'') (\<lambda>_. luego re_d (\<lambda>dd. devuelve (Y, M, dd)))
               [CHR ''-'', g, h] = ((Y, M, D), []) # Z4" by blast
  obtain R3 where r3: "re_m [e, f, CHR ''-'', g, h] = (M, [CHR ''-'', g, h]) # R3"
    using re_m_dos [OF assms(5,6), of "[CHR ''-'', g, h]"] bM by (auto simp: M_def)
  have "\<exists>Z. luego re_m (\<lambda>m. luego (literal ''-'') (\<lambda>_. luego re_d (\<lambda>dd. devuelve (Y, m, dd))))
               [e, f, CHR ''-'', g, h] = ((Y, M, D), []) # Z"
    by (simp add: luego_def [of re_m] r3 z4)
  then have "\<exists>Z. luego (literal ''-'') (\<lambda>_. luego re_m (\<lambda>m. luego (literal ''-'')
               (\<lambda>_. luego re_d (\<lambda>dd. devuelve (Y, m, dd)))))
               [CHR ''-'', e, f, CHR ''-'', g, h] = ((Y, M, D), []) # Z"
    by (simp add: luego_literal)
  then obtain Z2 where z2: "luego (literal ''-'') (\<lambda>_. luego re_m (\<lambda>m. luego (literal ''-'')
               (\<lambda>_. luego re_d (\<lambda>dd. devuelve (Y, m, dd)))))
               [CHR ''-'', e, f, CHR ''-'', g, h] = ((Y, M, D), []) # Z2" by blast
  have r1: "re_Y [a, b, c, d, CHR ''-'', e, f, CHR ''-'', g, h] = (Y, [CHR ''-'', e, f, CHR ''-'', g, h]) # []"
    unfolding Y_def by (rule re_Y_cuatro [OF assms(1-4)])
  have "\<exists>Z. luego re_Y (\<lambda>y. luego (literal ''-'') (\<lambda>_. luego re_m (\<lambda>m. luego (literal ''-'')
               (\<lambda>_. luego re_d (\<lambda>dd. devuelve (y, m, dd))))))
               [a, b, c, d, CHR ''-'', e, f, CHR ''-'', g, h] = ((Y, M, D), []) # Z"
    by (simp add: luego_def [of re_Y] r1 z2 del: re_Y.simps)
  then obtain Z1 where "luego re_Y (\<lambda>y. luego (literal ''-'') (\<lambda>_. luego re_m (\<lambda>m. luego (literal ''-'')
               (\<lambda>_. luego re_d (\<lambda>dd. devuelve (y, m, dd))))))
               [a, b, c, d, CHR ''-'', e, f, CHR ''-'', g, h] = ((Y, M, D), []) # Z1" by blast
  then have "coincide (luego re_Y (\<lambda>y. luego (literal ''-'') (\<lambda>_. luego re_m (\<lambda>m. luego (literal ''-'')
               (\<lambda>_. luego re_d (\<lambda>dd. devuelve (y, m, dd)))))))
               [a, b, c, d, CHR ''-'', e, f, CHR ''-'', g, h] = Some (Y, M, D)"
    by (rule coincide_cabeza)
  then have "strptime_date [a, b, c, d, CHR ''-'', e, f, CHR ''-'', g, h] =
               Some \<lparr>year = Y, month = M, day = D\<rparr>"
    using v by (simp add: strptime_date_def)
  then show ?thesis by (simp only: Y_def M_def D_def)
qed

lemma strptime_datetime_canonico:
  assumes "a \<in> set ''0123456789''" and "b \<in> set ''0123456789''"
    and "c \<in> set ''0123456789''" and "d \<in> set ''0123456789''"
    and "e \<in> set ''0123456789''" and "f \<in> set ''0123456789''"
    and "g \<in> set ''0123456789''" and "h \<in> set ''0123456789''"
    and "x \<in> set ''Tt''"
    and "i \<in> set ''0123456789''" and "j \<in> set ''0123456789''"
    and "k \<in> set ''0123456789''" and "l \<in> set ''0123456789''"
    and "fecha_valida (1000 * digit_val a + 100 * digit_val b + 10 * digit_val c + digit_val d)
           (10 * digit_val e + digit_val f) (10 * digit_val g + digit_val h)"
    and "10 * digit_val i + digit_val j \<le> 23" and "10 * digit_val k + digit_val l \<le> 59"
  shows "strptime_datetime [a, b, c, d, CHR ''-'', e, f, CHR ''-'', g, h, x, i, j, CHR '':'', k, l] =
           Some \<lparr>year = 1000 * digit_val a + 100 * digit_val b + 10 * digit_val c + digit_val d,
                 month = 10 * digit_val e + digit_val f, day = 10 * digit_val g + digit_val h,
                 hour = 10 * digit_val i + digit_val j, minute = 10 * digit_val k + digit_val l\<rparr>"
proof -
  define Y where "Y = 1000 * digit_val a + 100 * digit_val b + 10 * digit_val c + digit_val d"
  define M where "M = 10 * digit_val e + digit_val f"
  define D where "D = 10 * digit_val g + digit_val h"
  define H where "H = 10 * digit_val i + digit_val j"
  define N where "N = 10 * digit_val k + digit_val l"
  define s8 where "s8 = [CHR '':'', k, l]"
  define s6 where "s6 = x # i # j # s8"
  define s4 where "s4 = CHR ''-'' # g # h # s6"
  define s2 where "s2 = CHR ''-'' # e # f # s4"
  have v: "fecha_valida Y M D" using assms(14) by (simp add: Y_def M_def D_def)
  then have bM: "1 \<le> M" "M \<le> 12" and bD: "1 \<le> D" "D \<le> 31"
    by (auto simp: fecha_valida_def dias_del_mes_def split: if_splits)
  obtain R9 where r9: "re_M [k, l] = (N, []) # R9"
    using re_M_dos [OF assms(12,13,16), of "[]"] by (auto simp: N_def)
  have "\<exists>Z. luego re_M (\<lambda>n. devuelve (Y, M, D, H, n)) [k, l] = ((Y, M, D, H, N), []) # Z"
    by (simp add: luego_def [of re_M] r9 devuelve_def)
  then have "\<exists>Z. luego (literal '':'') (\<lambda>_. luego re_M (\<lambda>n. devuelve (Y, M, D, H, n))) s8
               = ((Y, M, D, H, N), []) # Z"
    by (simp add: luego_literal s8_def)
  then obtain Z8 where z8: "luego (literal '':'') (\<lambda>_. luego re_M (\<lambda>n. devuelve (Y, M, D, H, n))) s8
               = ((Y, M, D, H, N), []) # Z8" by blast
  have r7: "re_H (i # j # s8) = [(H, s8), (digit_val i, j # s8)]"
    unfolding H_def by (rule re_H_dos [OF assms(10,11,15)])
  have "\<exists>Z. luego re_H (\<lambda>hh. luego (literal '':'') (\<lambda>_. luego re_M (\<lambda>n. devuelve (Y, M, D, hh, n))))
               (i # j # s8) = ((Y, M, D, H, N), []) # Z"
    by (simp add: luego_def [of re_H] r7 z8)
  then have "\<exists>Z. luego (literal ''Tt'') (\<lambda>_. luego re_H (\<lambda>hh. luego (literal '':'')
               (\<lambda>_. luego re_M (\<lambda>n. devuelve (Y, M, D, hh, n))))) s6 = ((Y, M, D, H, N), []) # Z"
    unfolding s6_def luego_literal [OF assms(9)] .
  then obtain Z6 where z6: "luego (literal ''Tt'') (\<lambda>_. luego re_H (\<lambda>hh. luego (literal '':'')
               (\<lambda>_. luego re_M (\<lambda>n. devuelve (Y, M, D, hh, n))))) s6 = ((Y, M, D, H, N), []) # Z6"
    by blast
  obtain R5 where r5: "re_d (g # h # s6) = (D, s6) # R5"
    using re_d_dos [OF assms(7,8), of s6] bD by (auto simp: D_def)
  have "\<exists>Z. luego re_d (\<lambda>dd. luego (literal ''Tt'') (\<lambda>_. luego re_H (\<lambda>hh. luego (literal '':'')
               (\<lambda>_. luego re_M (\<lambda>n. devuelve (Y, M, dd, hh, n)))))) (g # h # s6)
               = ((Y, M, D, H, N), []) # Z"
    by (simp add: luego_def [of re_d] r5 z6)
  then have "\<exists>Z. luego (literal ''-'') (\<lambda>_. luego re_d (\<lambda>dd. luego (literal ''Tt'')
               (\<lambda>_. luego re_H (\<lambda>hh. luego (literal '':'')
               (\<lambda>_. luego re_M (\<lambda>n. devuelve (Y, M, dd, hh, n))))))) s4
               = ((Y, M, D, H, N), []) # Z"
    by (simp add: luego_literal s4_def)
  then obtain Z4 where z4: "luego (literal ''-'') (\<lambda>_. luego re_d (\<lambda>dd. luego (literal ''Tt'')
               (\<lambda>_. luego re_H (\<lambda>hh. luego (literal '':'')
               (\<lambda>_. luego re_M (\<lambda>n. devuelve (Y, M, dd, hh, n))))))) s4
               = ((Y, M, D, H, N), []) # Z4" by blast
  obtain R3 where r3: "re_m (e # f # s4) = (M, s4) # R3"
    using re_m_dos [OF assms(5,6), of s4] bM by (auto simp: M_def)
  have "\<exists>Z. luego re_m (\<lambda>m. luego (literal ''-'') (\<lambda>_. luego re_d (\<lambda>dd. luego (literal ''Tt'')
               (\<lambda>_. luego re_H (\<lambda>hh. luego (literal '':'')
               (\<lambda>_. luego re_M (\<lambda>n. devuelve (Y, m, dd, hh, n)))))))) (e # f # s4)
               = ((Y, M, D, H, N), []) # Z"
    by (simp add: luego_def [of re_m] r3 z4)
  then have "\<exists>Z. luego (literal ''-'') (\<lambda>_. luego re_m (\<lambda>m. luego (literal ''-'')
               (\<lambda>_. luego re_d (\<lambda>dd. luego (literal ''Tt'')
               (\<lambda>_. luego re_H (\<lambda>hh. luego (literal '':'')
               (\<lambda>_. luego re_M (\<lambda>n. devuelve (Y, m, dd, hh, n))))))))) s2
               = ((Y, M, D, H, N), []) # Z"
    by (simp add: luego_literal s2_def)
  then obtain Z2 where z2: "luego (literal ''-'') (\<lambda>_. luego re_m (\<lambda>m. luego (literal ''-'')
               (\<lambda>_. luego re_d (\<lambda>dd. luego (literal ''Tt'')
               (\<lambda>_. luego re_H (\<lambda>hh. luego (literal '':'')
               (\<lambda>_. luego re_M (\<lambda>n. devuelve (Y, m, dd, hh, n))))))))) s2
               = ((Y, M, D, H, N), []) # Z2" by blast
  have r1: "re_Y (a # b # c # d # s2) = [(Y, s2)]"
    unfolding Y_def by (rule re_Y_cuatro [OF assms(1-4)])
  have "\<exists>Z. luego re_Y (\<lambda>y. luego (literal ''-'') (\<lambda>_. luego re_m (\<lambda>m. luego (literal ''-'')
               (\<lambda>_. luego re_d (\<lambda>dd. luego (literal ''Tt'')
               (\<lambda>_. luego re_H (\<lambda>hh. luego (literal '':'')
               (\<lambda>_. luego re_M (\<lambda>n. devuelve (y, m, dd, hh, n)))))))))) (a # b # c # d # s2)
               = ((Y, M, D, H, N), []) # Z"
    by (simp add: luego_def [of re_Y] r1 z2 del: re_Y.simps)
  then obtain Z1 where "luego re_Y (\<lambda>y. luego (literal ''-'') (\<lambda>_. luego re_m (\<lambda>m. luego (literal ''-'')
               (\<lambda>_. luego re_d (\<lambda>dd. luego (literal ''Tt'')
               (\<lambda>_. luego re_H (\<lambda>hh. luego (literal '':'')
               (\<lambda>_. luego re_M (\<lambda>n. devuelve (y, m, dd, hh, n)))))))))) (a # b # c # d # s2)
               = ((Y, M, D, H, N), []) # Z1" by blast
  then have "coincide (luego re_Y (\<lambda>y. luego (literal ''-'') (\<lambda>_. luego re_m (\<lambda>m. luego (literal ''-'')
               (\<lambda>_. luego re_d (\<lambda>dd. luego (literal ''Tt'')
               (\<lambda>_. luego re_H (\<lambda>hh. luego (literal '':'')
               (\<lambda>_. luego re_M (\<lambda>n. devuelve (y, m, dd, hh, n))))))))))) (a # b # c # d # s2)
               = Some (Y, M, D, H, N)"
    by (rule coincide_cabeza)
  then have "strptime_datetime (a # b # c # d # s2) =
               Some \<lparr>year = Y, month = M, day = D, hour = H, minute = N\<rparr>"
    using v by (simp add: strptime_datetime_def)
  then show ?thesis by (simp only: Y_def M_def D_def H_def N_def s2_def s4_def s6_def s8_def)
qed

lemmas canonico_simps = strptime_datetime_canonico strptime_date_canonico fecha_valida_def
  dias_del_mes_def es_bisiesto_def digit_val_def

section \<open>Deleting rows and sorting\<close>

lemma fold_delete_cita:
  "fold delete_cita ys d =
     d\<lparr>tabla_cita := filter (\<lambda>c. cita_id c \<notin> cita_id ` set ys) (tabla_cita d)\<rparr>"
proof (induction ys arbitrary: d)
  case Nil
  show ?case by simp
next
  case (Cons y ys)
  show ?case by (simp add: Cons.IH) (simp add: delete_cita_def conj_commute)
qed

lemma fold_nth_take:
  "k \<le> length xs \<Longrightarrow>
     fold (\<lambda>i. delete_cita (xs ! i)) [0..<k] d = fold delete_cita (take k xs) d"
proof (induction k)
  case 0
  show ?case by simp
next
  case (Suc k)
  then have "take (Suc k) xs = take k xs @ [xs ! k]"
    by (simp add: take_Suc_conv_app_nth)
  with Suc show ?case by simp
qed

lemma limpiar_citas_eq:
  "limpiar_citas d =
     (length (tabla_cita d) - 20,
      d\<lparr>tabla_cita :=
           filter (\<lambda>c. cita_id c \<notin> cita_id ` set (take (length (tabla_cita d) - 20) (citas_asc d)))
                  (tabla_cita d)\<rparr>)"
proof (cases "length (tabla_cita d) > 20")
  case True
  then have "length (tabla_cita d) - 20 \<le> length (citas_asc d)"
    by (simp add: citas_asc_def)
  then show ?thesis
    using True by (simp add: limpiar_citas_def Let_def fold_nth_take fold_delete_cita) (simp add: citas_asc_def)
next
  case False
  then show ?thesis by (simp add: limpiar_citas_def Let_def citas_asc_def)
qed

lemma id_en_borradas:
  assumes "distinct (map cita_id xs)" and "set ys \<subseteq> set xs" and "x \<in> set xs"
  shows "cita_id x \<in> cita_id ` set ys \<longleftrightarrow> x \<in> set ys"
proof -
  have "inj_on cita_id (set xs)" using assms(1) by (simp add: distinct_map)
  then show ?thesis using assms(2,3) by (auto simp: inj_on_def)
qed

lemma filter_ids_eq:
  assumes "distinct (map cita_id xs)" and "set ys \<subseteq> set xs"
  shows "filter (\<lambda>c. cita_id c \<notin> cita_id ` set ys) xs = filter (\<lambda>c. c \<notin> set ys) xs"
  using id_en_borradas [OF assms] by (intro filter_cong) auto

lemma filter_take_drop:
  "distinct xs \<Longrightarrow> filter (\<lambda>c. c \<notin> set (take k xs)) xs = drop k xs"
proof -
  assume d: "distinct xs"
  have "filter (\<lambda>c. c \<notin> set (take k xs)) (take k xs @ drop k xs) = drop k xs"
    using d distinct_take [of xs k] set_take_disj_set_drop_if_distinct [of xs k k]
    by (auto simp: filter_empty_conv filter_id_conv simp del: append_take_drop_id)
  then show ?thesis by simp
qed

lemma fold_max_ge: "x \<in> set xs \<Longrightarrow> x \<le> fold max xs (a::nat)"
proof (induction xs arbitrary: a)
  case Nil
  then show ?case by simp
next
  case (Cons y ys)
  have mono: "\<And>b. b \<le> fold max ys b"
  proof -
    fix b show "b \<le> fold max ys b"
      by (induction ys arbitrary: b) (auto intro: order_trans [OF max.cobounded2])
  qed
  from Cons show ?case
    by (auto intro: order_trans [OF max.cobounded1 mono])
qed

lemma nuevo_id_fresh: "i \<in> set ids \<Longrightarrow> i < nuevo_id ids"
  using fold_max_ge [of i ids 0] by (simp add: nuevo_id_def)

lemma sort_key_snoc_menor:
  "\<forall>x \<in> set xs. f a < f x \<Longrightarrow> sort_key f (xs @ [a]) = a # sort_key f xs"
proof (induction xs)
  case Nil
  show ?case by simp
next
  case (Cons x xs)
  then have "\<not> f x \<le> f a" by auto
  with Cons show ?case by simp
qed

lemma citas_exito:
  assumes "strptime_datetime s = Some t" and "paciente_por_cedula d c = Some p"
  shows "citas d c s m =
     (let nueva = \<lparr>cita_id = nuevo_id (map cita_id (tabla_cita d)), fecha_cita = t,
                   motivo = m, paciente_cedula = c\<rparr>;
          k = length (tabla_cita d) + 1 - 20
      in (Inr k,
          d\<lparr>tabla_cita :=
               filter (\<lambda>x. cita_id x \<notin> cita_id `
                         set (take k (sort_key (\<lambda>x. clave_fecha (fecha_cita x)) (tabla_cita d @ [nueva]))))
                      (tabla_cita d @ [nueva])\<rparr>))"
  using assms by (simp add: citas_def Let_def limpiar_citas_eq citas_asc_def)

lemma delete_paciente_eq:
  assumes "esquema_ok d" and "p \<in> set (tabla_paciente d)"
  shows "delete_paciente p d =
           d\<lparr>tabla_paciente := filter (\<lambda>q. q \<noteq> p) (tabla_paciente d),
             tabla_cita := filter (\<lambda>x. paciente_cedula x \<noteq> cedula p) (tabla_cita d)\<rparr>"
proof -
  let ?hijas = "filter (\<lambda>c. paciente_cedula c = cedula p) (tabla_cita d)"
  have dc: "distinct (map cita_id (tabla_cita d))" and dp: "inj_on paciente_id (set (tabla_paciente d))"
    using assms(1) by (simp_all add: esquema_ok_def distinct_map)
  have "filter (\<lambda>c. cita_id c \<notin> cita_id ` set ?hijas) (tabla_cita d)
          = filter (\<lambda>c. c \<notin> set ?hijas) (tabla_cita d)"
    by (rule filter_ids_eq [OF dc]) auto
  also have "\<dots> = filter (\<lambda>x. paciente_cedula x \<noteq> cedula p) (tabla_cita d)"
    by (intro filter_cong) auto
  finally have c: "filter (\<lambda>c. cita_id c \<notin> cita_id ` set ?hijas) (tabla_cita d)
          = filter (\<lambda>x. paciente_cedula x \<noteq> cedula p) (tabla_cita d)" .
  have p: "filter (\<lambda>q. paciente_id q \<noteq> paciente_id p) (tabla_paciente d)
          = filter (\<lambda>q. q \<noteq> p) (tabla_paciente d)"
    using dp assms(2) by (intro filter_cong) (auto simp: inj_on_def)
  have "delete_paciente p d =
          d\<lparr>tabla_cita := filter (\<lambda>c. cita_id c \<notin> cita_id ` set ?hijas) (tabla_cita d),
            tabla_paciente := filter (\<lambda>q. paciente_id q \<noteq> paciente_id p) (tabla_paciente d)\<rparr>"
    by (simp add: delete_paciente_def Let_def fold_delete_cita del: set_filter)
  then show ?thesis unfolding c p by simp
qed

lemma strptime_1990: "strptime_date ''1990-05-20'' = Some \<lparr>year = 1990, month = 5, day = 20\<rparr>"
  by code_simp

lemma strptime_enero: "strptime_datetime ''2024-01-10T09:00'' =
     Some \<lparr>year = 2024, month = 1, day = 10, hour = 9, minute = 0\<rparr>"
  by code_simp

section \<open>The retention step after an insert\<close>

lemma citas_exitoD:
  assumes "citas d c s m = (Inr k, d')"
  shows "\<exists>t p. strptime_datetime s = Some t \<and> paciente_por_cedula d c = Some p"
  using assms
  by (cases "strptime_datetime s"; cases "paciente_por_cedula d c") (simp_all add: citas_def)

lemma nuevo_id_notin: "nuevo_id ids \<notin> set ids"
  using nuevo_id_fresh [of "nuevo_id ids" ids] by blast

lemma distinct_ids_snoc:
  "distinct (map cita_id xs) \<Longrightarrow>
   distinct (map cita_id (xs @ [\<lparr>cita_id = nuevo_id (map cita_id xs), fecha_cita = t,
                                 motivo = m, paciente_cedula = c\<rparr>]))"
  using nuevo_id_notin [of "map cita_id xs"] by simp

lemma length_filter_borradas:
  assumes "distinct xs" and "distinct bs" and "set bs \<subseteq> set xs"
  shows "length (filter (\<lambda>x. x \<notin> set bs) xs) = length xs - length bs"
proof -
  have "distinct (filter (\<lambda>x. x \<notin> set bs) xs)" using assms(1) by simp
  moreover have "set (filter (\<lambda>x. x \<notin> set bs) xs) = set xs - set bs" by auto
  ultimately have "length (filter (\<lambda>x. x \<notin> set bs) xs) = card (set xs - set bs)"
    using distinct_card by fastforce
  also have "\<dots> = card (set xs) - card (set bs)"
    using assms(3) by (simp add: card_Diff_subset)
  finally show ?thesis using assms(1,2) by (simp add: distinct_card)
qed

lemma citas_retencion_general:
  assumes "esquema_ok d" and "citas d c s m = (Inr k, d')"
  shows "\<exists>nueva borradas.
      strptime_datetime s = Some (fecha_cita nueva) \<and> paciente_cedula nueva = c \<and>
      motivo nueva = m \<and>
      k = length (tabla_cita d) + 1 - 20 \<and>
      borradas = take k (sort_key (\<lambda>x. clave_fecha (fecha_cita x)) (tabla_cita d @ [nueva])) \<and>
      length borradas = k \<and>
      tabla_cita d' = filter (\<lambda>x. x \<notin> set borradas) (tabla_cita d @ [nueva]) \<and>
      length (tabla_cita d') = length (tabla_cita d) + 1 - k \<and>
      length (tabla_cita d') \<le> 20 \<and>
      (\<forall>x \<in> set borradas. \<forall>y \<in> set (tabla_cita d').
          clave_fecha (fecha_cita x) \<le> clave_fecha (fecha_cita y)) \<and>
      tabla_paciente d' = tabla_paciente d"
proof -
  obtain t p where t: "strptime_datetime s = Some t" and p: "paciente_por_cedula d c = Some p"
    using citas_exitoD [OF assms(2)] by blast
  define nueva where "nueva = \<lparr>cita_id = nuevo_id (map cita_id (tabla_cita d)), fecha_cita = t,
                   motivo = m, paciente_cedula = c\<rparr>"
  define xs where "xs = tabla_cita d @ [nueva]"
  define n where "n = length (tabla_cita d) + 1 - 20"
  define bs where "bs = take n (sort_key (\<lambda>x. clave_fecha (fecha_cita x)) xs)"
  have "citas d c s m = (Inr n, d\<lparr>tabla_cita := filter (\<lambda>x. cita_id x \<notin> cita_id ` set bs) xs\<rparr>)"
    by (simp only: citas_exito [OF t p] Let_def nueva_def xs_def n_def bs_def)
  with assms(2) have res: "k = n"
    "d' = d\<lparr>tabla_cita := filter (\<lambda>x. cita_id x \<notin> cita_id ` set bs) xs\<rparr>"
    by simp_all
  have dids: "distinct (map cita_id xs)"
    unfolding xs_def nueva_def using assms(1) by (intro distinct_ids_snoc) (simp add: esquema_ok_def)
  then have dxs: "distinct xs" by (simp add: distinct_map)
  have sub: "set bs \<subseteq> set xs"
    unfolding bs_def by (metis set_sort set_take_subset)
  have dbs: "distinct bs" unfolding bs_def using dxs by simp
  have lbs: "length bs = n" unfolding bs_def by (simp add: xs_def n_def)
  have tab: "tabla_cita d' = filter (\<lambda>x. x \<notin> set bs) xs"
    using res(2) filter_ids_eq [OF dids sub] by simp
  have len: "length (tabla_cita d') = length (tabla_cita d) + 1 - n"
    unfolding tab length_filter_borradas [OF dxs dbs sub] by (simp add: lbs xs_def)
  have ord: "\<forall>x \<in> set bs. \<forall>y \<in> set (tabla_cita d').
          clave_fecha (fecha_cita x) \<le> clave_fecha (fecha_cita y)"
  proof (intro ballI)
    fix x y assume x: "x \<in> set bs" and y: "y \<in> set (tabla_cita d')"
    let ?ys = "sort_key (\<lambda>x. clave_fecha (fecha_cita x)) xs"
    have "y \<in> set ?ys" "y \<notin> set (take n ?ys)" using y by (simp_all add: tab bs_def)
    then have yd: "y \<in> set (drop n ?ys)"
      by (metis Un_iff append_take_drop_id set_append)
    have "sorted (map (\<lambda>x. clave_fecha (fecha_cita x)) (take n ?ys @ drop n ?ys))"
      by simp
    then show "clave_fecha (fecha_cita x) \<le> clave_fecha (fecha_cita y)"
      using x yd unfolding bs_def map_append sorted_append by auto
  qed
  have "strptime_datetime s = Some (fecha_cita nueva)" "paciente_cedula nueva = c" "motivo nueva = m"
    by (simp_all add: nueva_def t)
  moreover have "length (tabla_cita d') \<le> 20" using len by (simp add: n_def)
  moreover have "tabla_paciente d' = tabla_paciente d" using res(2) by simp
  ultimately show ?thesis
    using res(1) tab len ord lbs unfolding bs_def xs_def n_def by blast
qed


lemma agendar_crecientes:
  assumes "esquema_ok d0" and "tabla_cita d0 = []" and "p \<in> set (tabla_paciente d0)"
    and "cedula p = c"
  shows "map (\<lambda>r. strptime_datetime (fst r)) reqs = map Some ts \<Longrightarrow>
         sorted_wrt (<) (map clave_fecha ts) \<Longrightarrow>
         esquema_ok (foldl (\<lambda>d r. snd (citas d c (fst r) (snd r))) d0 reqs) \<and>
         tabla_paciente (foldl (\<lambda>d r. snd (citas d c (fst r) (snd r))) d0 reqs) = tabla_paciente d0 \<and>
         map fecha_cita (tabla_cita (foldl (\<lambda>d r. snd (citas d c (fst r) (snd r))) d0 reqs))
           = drop (length ts - 20) ts"
proof (induction reqs arbitrary: ts rule: rev_induct)
  case Nil
  then show ?case using assms by simp
next
  case (snoc r reqs)
  let ?K = "\<lambda>x. clave_fecha (fecha_cita x)"
  from snoc.prems(1) have "length ts = Suc (length reqs)"
    by (metis length_append_singleton length_map)
  then obtain ts' t where ts: "ts = ts' @ [t]"
    by (cases ts rule: rev_cases) auto
  with snoc.prems(1) have m: "map (\<lambda>r. strptime_datetime (fst r)) reqs = map Some ts'"
    and t: "strptime_datetime (fst r) = Some t" by auto
  from snoc.prems(2) ts have s': "sorted_wrt (<) (map clave_fecha ts')"
    and lt: "\<forall>x \<in> set ts'. clave_fecha x < clave_fecha t"
    by (auto simp: sorted_wrt_append)
  define df where "df = foldl (\<lambda>d r. snd (citas d c (fst r) (snd r))) d0 reqs"
  have ih: "esquema_ok df" "tabla_paciente df = tabla_paciente d0"
    "map fecha_cita (tabla_cita df) = drop (length ts' - 20) ts'"
    using snoc.IH [OF m s'] by (simp_all add: df_def)
  obtain q where q: "paciente_por_cedula df c = Some q"
    using paciente_por_cedula_Some [of p df] assms(3,4) ih(2) by auto
  define nueva where "nueva = \<lparr>cita_id = nuevo_id (map cita_id (tabla_cita df)), fecha_cita = t,
                   motivo = snd r, paciente_cedula = c\<rparr>"
  define xs where "xs = tabla_cita df @ [nueva]"
  define n where "n = length (tabla_cita df) + 1 - 20"
  have fx: "map fecha_cita xs = drop (length ts' - 20) ts' @ [t]"
    by (simp add: xs_def ih(3) nueva_def)
  have a: "sorted_wrt (<) (map clave_fecha (drop (length ts' - 20) ts'))"
    using sorted_wrt_drop [OF s', of "length ts' - 20"] by (simp add: drop_map)
  have b: "\<forall>x \<in> set (drop (length ts' - 20) ts'). clave_fecha x < clave_fecha t"
    using lt by (meson in_set_dropD)
  have "sorted_wrt (<) (map clave_fecha (drop (length ts' - 20) ts' @ [t]))"
    using a b by (simp add: sorted_wrt_append)
  then have "sorted (map clave_fecha (map fecha_cita xs))"
    unfolding fx by (rule strict_sorted_imp_sorted)
  then have srt: "sort_key ?K xs = xs"
    by (intro sort_key_id_if_sorted) (simp add: comp_def)
  have dids: "distinct (map cita_id xs)"
    unfolding xs_def nueva_def using ih(1) by (intro distinct_ids_snoc) (simp add: esquema_ok_def)
  then have dxs: "distinct xs" by (simp add: distinct_map)
  have "citas df c (fst r) (snd r) =
          (Inr n, df\<lparr>tabla_cita :=
                      filter (\<lambda>x. cita_id x \<notin> cita_id ` set (take n (sort_key ?K xs))) xs\<rparr>)"
    by (simp only: citas_exito [OF t q] Let_def nueva_def xs_def n_def)
  then have step: "snd (citas df c (fst r) (snd r)) = df\<lparr>tabla_cita := drop n xs\<rparr>"
    using filter_ids_eq [OF dids set_take_subset, of n] filter_take_drop [OF dxs, of n]
    by (simp add: srt)
  have lT: "length (tabla_cita df) = min (length ts') 20"
    using arg_cong [OF ih(3), of length] by (simp add: min_def)
  have "map fecha_cita (drop n xs) = drop n (map fecha_cita xs)"
    by (simp only: drop_map)
  also have "\<dots> = drop n (drop (length ts' - 20) ts' @ [t])"
    by (simp only: fx)
  also have "\<dots> = drop (length ts - 20) ts"
  proof (cases "20 \<le> length ts'")
    case True
    define k where "k = length ts' - 20"
    have n1: "n = 1" using True by (simp add: n_def lT)
    have kL: "Suc k \<le> length ts'" using True by (simp add: k_def)
    have e: "length ts - 20 = Suc k" using True by (simp add: ts k_def)
    have "drop 1 (drop k ts' @ [t]) = drop (Suc k) (ts' @ [t])"
      using kL by simp
    then show ?thesis using e unfolding n1 k_def ts by simp
  next
    case False
    then have "n = 0" "length ts' - 20 = 0" "length ts - 20 = 0"
      by (simp_all add: n_def lT ts)
    then show ?thesis by (simp add: ts)
  qed
  finally have final: "map fecha_cita (drop n xs) = drop (length ts - 20) ts" .
  have "distinct (map cita_id (drop n xs))"
    using distinct_drop [OF dids, of n] by (simp only: drop_map)
  then have "esquema_ok (df\<lparr>tabla_cita := drop n xs\<rparr>)"
    using ih(1) by (simp add: esquema_ok_def)
  then show ?case
    using final ih(2) by (simp add: df_def [symmetric] step)
qed

lemma solicitudes25_parse:
  "map (\<lambda>r. strptime_datetime (fst r)) solicitudes25 = map Some fechas25"
  by (simp add: solicitudes25_def fechas25_def upt_conv_Cons canonico_simps)

lemma mono_clave:
  "a < b \<Longrightarrow> clave_fecha \<lparr>year = 2024, month = 1, day = a, hour = 9, minute = 0\<rparr>
             < clave_fecha \<lparr>year = 2024, month = 1, day = b, hour = 9, minute = 0\<rparr>"
  by (simp add: clave_fecha_def)

lemma fechas25_crecientes: "sorted_wrt (<) (map clave_fecha fechas25)"
proof -
  have "sorted_wrt (<) [1..<26::nat]" by (rule sorted_wrt_upt)
  then have "sorted_wrt (\<lambda>a b. clave_fecha \<lparr>year = 2024, month = 1, day = a, hour = 9, minute = 0\<rparr>
             < clave_fecha \<lparr>year = 2024, month = 1, day = b, hour = 9, minute = 0\<rparr>) [1..<26]"
    by (rule sorted_wrt_mono_rel [rotated]) (rule mono_clave)
  then show ?thesis by (simp add: fechas25_def sorted_wrt_map)
qed

lemma strptime_marzo: "strptime_datetime ''2024-03-01T10:30'' =
     Some \<lparr>year = 2024, month = 3, day = 1, hour = 10, minute = 30\<rparr>"
  by (simp add: canonico_simps)

lemma esquema_lleno: "esquema_ok db_lleno"
proof -
  have "map cita_id (tabla_cita db_lleno) = [1..<21]"
    by (simp add: db_lleno_def comp_def)
  then show ?thesis by (simp add: esquema_ok_def) (simp add: db_lleno_def)
qed

lemma esquema_inicial: "esquema_ok db_inicial"
  by (simp add: esquema_ok_def db_inicial_def)

lemma paciente_por_cedula_None:
  "\<forall>p \<in> set (tabla_paciente d). cedula p \<noteq> c \<Longrightarrow> paciente_por_cedula d c = None"
  by (auto simp: paciente_por_cedula_def find_None_iff)

lemma find_snoc_None:
  "find P xs = None \<Longrightarrow> find P (xs @ [x]) = (if P x then Some x else None)"
  by (induction xs) (auto split: if_splits)

section \<open>Registering a patient\<close>

text \<open>
  C4. Whenever some patient of the table already holds the identifier and the birth-date
  text parses, \<open>registrar\<close> reports \<open>DuplicateIdentifier\<close> and returns the database it was
  given: no row is added and no row changes.
\<close>

theorem registrar_duplicate:
  assumes "p \<in> set (tabla_paciente d)" and "cedula p = c" and "strptime_date s = Some f"
  shows "registrar d n c s = (Inl DuplicateIdentifier, d)"
proof -
  from assms(1,2) obtain q where "paciente_por_cedula d c = Some q"
    using paciente_por_cedula_Some by blast
  with assms(3) show ?thesis by (simp add: registrar_def)
qed

theorem registrar_duplicate_witness:
  "registrar db_ejemplo ''Carla'' ''V123'' ''1985-01-02'' = (Inl DuplicateIdentifier, db_ejemplo)"
proof -
  have 1: "paciente_ana \<in> set (tabla_paciente db_ejemplo)"
    by (simp add: db_ejemplo_def)
  have 2: "cedula paciente_ana = ''V123''"
    by (simp add: paciente_ana_def)
  show ?thesis by (rule registrar_duplicate [OF 1 2 strptime_1985])
qed

text \<open>
  C5, as stated: with a duplicate identifier and a birth-date text that does not parse,
  the failure would be \<open>DuplicateIdentifier\<close>. The source parses the date first (lines 63
  to 68) and only then looks the identifier up (lines 70 to 74), so at the identifier of an
  existing patient and the text \<^verbatim>\<open>20/05/1990\<close> the failure is not \<open>DuplicateIdentifier\<close>.
\<close>

theorem registrar_fecha_primero_counterexample:
  "paciente_por_cedula db_ejemplo ''V123'' \<noteq> None \<and> strptime_date ''20/05/1990'' = None \<and>
   fst (registrar db_ejemplo ''Carla'' ''V123'' ''20/05/1990'') \<noteq> Inl DuplicateIdentifier"
  by (simp add: registrar_def strptime_malo paciente_por_cedula_def ejemplo_defs)

text \<open>
  C5, amended. \<open>registrar\<close> checks the birth-date text before the identifier: for every
  input whose birth-date text \<^verbatim>\<open>strptime\<close> rejects, whether or not the identifier is
  already in use, it reports \<open>InvalidDateFormat\<close> and leaves the database unchanged.
\<close>

theorem registrar_fecha_primero:
  assumes "strptime_date s = None"
  shows "registrar d n c s = (Inl InvalidDateFormat, d)"
  using assms by (simp add: registrar_def)

theorem registrar_fecha_primero_witness:
  "paciente_por_cedula db_ejemplo ''V123'' \<noteq> None \<and>
   registrar db_ejemplo ''Carla'' ''V123'' ''20/05/1990'' = (Inl InvalidDateFormat, db_ejemplo)"
  using registrar_fecha_primero [OF strptime_malo, of db_ejemplo "''Carla''" "''V123''"]
  by (simp add: paciente_por_cedula_def ejemplo_defs)

section \<open>Scheduling an appointment\<close>

text \<open>
  C7. When no patient holds the identifier and the date-time text parses, \<open>citas\<close>
  reports \<open>PatientNotFound\<close> and returns the database it was given: no appointment row is
  created.
\<close>

theorem citas_paciente_inexistente:
  assumes "\<forall>p \<in> set (tabla_paciente d). cedula p \<noteq> c" and "strptime_datetime s = Some t"
  shows "citas d c s m = (Inl PatientNotFound, d)"
proof -
  have "paciente_por_cedula d c = None"
    using assms(1) by (auto simp: paciente_por_cedula_def find_None_iff)
  with assms(2) show ?thesis by (simp add: citas_def)
qed

theorem citas_paciente_inexistente_witness:
  "citas db_ejemplo ''V999'' ''2024-01-10T09:00'' ''Checkup'' = (Inl PatientNotFound, db_ejemplo)"
proof -
  have 1: "\<forall>p \<in> set (tabla_paciente db_ejemplo). cedula p \<noteq> ''V999''"
    by (simp add: ejemplo_defs)
  show ?thesis by (rule citas_paciente_inexistente [OF 1 strptime_cita])
qed

text \<open>
  C6. With at most 20 appointments stored, the retention step deletes nothing: it reports
  0 deletions and returns the database it was given.
\<close>

theorem limpiar_citas_noop:
  assumes "length (tabla_cita d) \<le> 20"
  shows "limpiar_citas d = (0, d)"
  using assms by (simp add: limpiar_citas_def citas_asc_def)

theorem limpiar_citas_noop_witness:
  "length (tabla_cita db_ejemplo) \<le> 20 \<and> limpiar_citas db_ejemplo = (0, db_ejemplo)"
proof -
  have 1: "length (tabla_cita db_ejemplo) \<le> 20" by (simp add: db_ejemplo_def)
  show ?thesis using 1 limpiar_citas_noop [OF 1] by simp
qed

section \<open>Modifying a patient\<close>

text \<open>
  C8, as stated: modifying patient A to the identifier of another patient B would always
  fail with \<open>DuplicateIdentifier\<close>. The source parses the birth-date text (lines 162 to
  166) before it compares identifiers (lines 169 to 173), so with the text
  \<^verbatim>\<open>20/05/1990\<close> the failure is not \<open>DuplicateIdentifier\<close>.
\<close>

theorem modificar_cedula_duplicada_counterexample:
  "paciente_ana \<in> set (tabla_paciente db_ejemplo) \<and>
   paciente_bob \<in> set (tabla_paciente db_ejemplo) \<and> paciente_ana \<noteq> paciente_bob \<and>
   fst (modificar_paciente db_ejemplo (cedula paciente_ana) ''Ana'' (cedula paciente_bob)
          ''20/05/1990'') \<noteq> Inl DuplicateIdentifier"
  by (simp add: modificar_paciente_def strptime_malo paciente_por_cedula_def ejemplo_defs)

text \<open>
  C8, amended. In a database that satisfies its schema and holds two distinct patients A
  and B, modifying A so that its new identifier is B's performs no update: the database is
  returned as it was given. The failure is \<open>DuplicateIdentifier\<close> when the birth-date text
  parses and \<open>InvalidDateFormat\<close> when it does not.
\<close>

theorem modificar_cedula_duplicada:
  assumes "esquema_ok d" and "a \<in> set (tabla_paciente d)" and "b \<in> set (tabla_paciente d)"
    and "a \<noteq> b"
  shows "modificar_paciente d (cedula a) n (cedula b) s =
           (if strptime_date s = None then (Inl InvalidDateFormat, d)
            else (Inl DuplicateIdentifier, d))"
proof -
  have ne: "cedula b \<noteq> cedula a" using assms esquema_cedula_inj by metis
  obtain qa where qa: "paciente_por_cedula d (cedula a) = Some qa"
    using paciente_por_cedula_Some [OF assms(2)] by blast
  obtain qb where qb: "paciente_por_cedula d (cedula b) = Some qb"
    using paciente_por_cedula_Some [OF assms(3)] by blast
  show ?thesis using ne qa qb by (auto simp: modificar_paciente_def split: option.splits)
qed

theorem modificar_cedula_duplicada_witness:
  "modificar_paciente db_ejemplo (cedula paciente_ana) ''Ana'' (cedula paciente_bob) ''1985-01-02''
     = (Inl DuplicateIdentifier, db_ejemplo) \<and>
   modificar_paciente db_ejemplo (cedula paciente_ana) ''Ana'' (cedula paciente_bob) ''20/05/1990''
     = (Inl InvalidDateFormat, db_ejemplo)"
proof -
  have 1: "paciente_ana \<in> set (tabla_paciente db_ejemplo)" by (simp add: db_ejemplo_def)
  have 2: "paciente_bob \<in> set (tabla_paciente db_ejemplo)" by (simp add: db_ejemplo_def)
  have 3: "paciente_ana \<noteq> paciente_bob" by (simp add: ejemplo_defs)
  show ?thesis
    using modificar_cedula_duplicada [OF esquema_ejemplo 1 2 3, of "''Ana''" "''1985-01-02''"]
      modificar_cedula_duplicada [OF esquema_ejemplo 1 2 3, of "''Ana''" "''20/05/1990''"]
    by (simp add: strptime_1985 strptime_malo)
qed

text \<open>
  C2. The claim is that every appointment refers to an existing patient after every
  operation, also after \<open>modificar_paciente\<close> changes an identifier. The handler updates
  the patient's row only (lines 176 to 180): at the example database, which satisfies the
  invariant, renaming \<^verbatim>\<open>V123\<close> to \<^verbatim>\<open>V999\<close> succeeds and leaves the appointment
  pointing at \<^verbatim>\<open>V123\<close>, an identifier no patient holds any more.
\<close>

theorem modificar_deja_huerfanas:
  "referencias_ok db_ejemplo \<and>
   fst (modificar_paciente db_ejemplo ''V123'' ''Ana'' ''V999'' ''1990-05-20'') = Inr () \<and>
   \<not> referencias_ok (snd (modificar_paciente db_ejemplo ''V123'' ''Ana'' ''V999'' ''1990-05-20''))"
  by (simp add: modificar_paciente_def strptime_1990 paciente_por_cedula_def referencias_ok_def
        ejemplo_defs)

section \<open>Deleting a patient\<close>

text \<open>
  C3. In a database that satisfies its schema, deleting an existing patient succeeds and
  removes exactly that patient's row and exactly the appointments whose
  \<open>paciente_cedula\<close> is the patient's identifier; every other row of both tables stays, in
  order. Patient and appointments go in the one commit of the handler, so the handler has
  no result in which the patient is gone and its appointments remain.
\<close>

theorem eliminar_paciente_cascada:
  assumes "esquema_ok d" and "p \<in> set (tabla_paciente d)"
  shows "eliminar_paciente d (cedula p) =
           (Inr (), d\<lparr>tabla_paciente := filter (\<lambda>q. q \<noteq> p) (tabla_paciente d),
                      tabla_cita := filter (\<lambda>x. paciente_cedula x \<noteq> cedula p) (tabla_cita d)\<rparr>)"
proof -
  obtain q where q: "paciente_por_cedula d (cedula p) = Some q"
    using paciente_por_cedula_Some [OF assms(2)] by blast
  then have "q = p"
    using esquema_cedula_inj [OF assms(1) _ assms(2)] paciente_por_cedula_SomeD by blast
  with q show ?thesis
    by (simp add: eliminar_paciente_def delete_paciente_eq [OF assms])
qed

theorem eliminar_paciente_cascada_witness:
  "eliminar_paciente db_ejemplo ''V123'' =
     (Inr (), \<lparr>tabla_paciente = [paciente_bob], tabla_cita = []\<rparr>)"
proof -
  have 1: "paciente_ana \<in> set (tabla_paciente db_ejemplo)" by (simp add: db_ejemplo_def)
  show ?thesis
    using eliminar_paciente_cascada [OF esquema_ejemplo 1] by (simp add: ejemplo_defs)
qed

section \<open>A new appointment that the retention step deletes\<close>

text \<open>
  C10. With 20 appointments stored, all scheduled strictly later than the new one,
  scheduling for an existing patient reports success with one deletion, and the database
  after it is the database before it: it holds 20 appointments, none with the new
  appointment's date and time or with its id.
\<close>

theorem citas_recien_creada_eliminada:
  assumes "length (tabla_cita d) = 20" and "p \<in> set (tabla_paciente d)" and "cedula p = c"
    and "strptime_datetime s = Some t"
    and "\<forall>x \<in> set (tabla_cita d). clave_fecha t < clave_fecha (fecha_cita x)"
  shows "citas d c s m = (Inr 1, d) \<and> length (tabla_cita d) = 20 \<and>
         (\<forall>x \<in> set (tabla_cita d). fecha_cita x \<noteq> t \<and>
              cita_id x \<noteq> nuevo_id (map cita_id (tabla_cita d)))"
proof -
  let ?nueva = "\<lparr>cita_id = nuevo_id (map cita_id (tabla_cita d)), fecha_cita = t,
                   motivo = m, paciente_cedula = c\<rparr>"
  obtain q where q: "paciente_por_cedula d c = Some q"
    using paciente_por_cedula_Some [OF assms(2)] assms(3) by blast
  have s: "sort_key (\<lambda>x. clave_fecha (fecha_cita x)) (tabla_cita d @ [?nueva])
            = ?nueva # sort_key (\<lambda>x. clave_fecha (fecha_cita x)) (tabla_cita d)"
    by (rule sort_key_snoc_menor) (use assms(5) in simp)
  have fresh: "\<forall>x \<in> set (tabla_cita d). cita_id x \<noteq> nuevo_id (map cita_id (tabla_cita d))"
    using nuevo_id_fresh [of _ "map cita_id (tabla_cita d)"] by fastforce
  then have f: "filter (\<lambda>x. cita_id x \<noteq> nuevo_id (map cita_id (tabla_cita d))) (tabla_cita d) = tabla_cita d"
    by (simp add: filter_id_conv)
  have "citas d c s m = (Inr 1, d)"
    by (simp add: citas_exito [OF assms(4) q] Let_def assms(1) s f)
  moreover have "\<forall>x \<in> set (tabla_cita d). fecha_cita x \<noteq> t"
    using assms(5) by auto
  ultimately show ?thesis using fresh assms(1) by simp
qed

theorem citas_recien_creada_eliminada_witness:
  "length (tabla_cita db_lleno) = 20 \<and>
   citas db_lleno ''V123'' ''2024-01-10T09:00'' ''Checkup'' = (Inr 1, db_lleno) \<and>
   \<lparr>year = 2024, month = 1, day = 10, hour = 9, minute = 0\<rparr> \<notin> fecha_cita ` set (tabla_cita db_lleno)"
proof -
  have 1: "length (tabla_cita db_lleno) = 20" by (simp add: db_lleno_def)
  have 2: "paciente_ana \<in> set (tabla_paciente db_lleno)" by (simp add: db_lleno_def)
  have 3: "cedula paciente_ana = ''V123''" by (simp add: paciente_ana_def)
  have 5: "\<forall>x \<in> set (tabla_cita db_lleno).
             clave_fecha \<lparr>year = 2024, month = 1, day = 10, hour = 9, minute = 0\<rparr>
               < clave_fecha (fecha_cita x)"
    by (simp add: db_lleno_def clave_fecha_def)
  show ?thesis
    using citas_recien_creada_eliminada [OF 1 2 3 strptime_enero 5, of "''Checkup''"] by auto
qed

section \<open>The retention step after a successful scheduling\<close>

text \<open>
  C1. In a database that satisfies its schema, a successful scheduling inserts the new
  appointment and then deletes \<open>k\<close> appointments, where \<open>k\<close> is the count after the insert
  minus 20 (zero when the count is at most 20): they are the first \<open>k\<close> rows of the table
  sorted by \<open>fecha_cita\<close> ascending, whatever the order of the table, so every deleted
  appointment is scheduled no later than every appointment that stays, exactly \<open>k\<close> rows go
  and at most 20 remain. In particular, starting with a patient and no appointment, after
  25 successful requests with strictly increasing dates exactly 20 appointments remain and
  their dates are the 25 dates without the 5 earliest.
\<close>

theorem citas_retencion:
  "(esquema_ok d \<and> citas d c s m = (Inr k, d') \<longrightarrow>
      (\<exists>nueva borradas.
         strptime_datetime s = Some (fecha_cita nueva) \<and> paciente_cedula nueva = c \<and>
         motivo nueva = m \<and>
         k = length (tabla_cita d) + 1 - 20 \<and>
         borradas = take k (sort_key (\<lambda>x. clave_fecha (fecha_cita x)) (tabla_cita d @ [nueva])) \<and>
         length borradas = k \<and>
         tabla_cita d' = filter (\<lambda>x. x \<notin> set borradas) (tabla_cita d @ [nueva]) \<and>
         length (tabla_cita d') = length (tabla_cita d) + 1 - k \<and>
         length (tabla_cita d') \<le> 20 \<and>
         (\<forall>x \<in> set borradas. \<forall>y \<in> set (tabla_cita d').
             clave_fecha (fecha_cita x) \<le> clave_fecha (fecha_cita y)) \<and>
         tabla_paciente d' = tabla_paciente d)) \<and>
   (esquema_ok d0 \<and> tabla_cita d0 = [] \<and> p \<in> set (tabla_paciente d0) \<and> cedula p = c0 \<and>
    length reqs = 25 \<and> map (\<lambda>r. strptime_datetime (fst r)) reqs = map Some ts \<and>
    sorted_wrt (<) (map clave_fecha ts) \<longrightarrow>
      length (tabla_cita (foldl (\<lambda>d r. snd (citas d c0 (fst r) (snd r))) d0 reqs)) = 20 \<and>
      map fecha_cita (tabla_cita (foldl (\<lambda>d r. snd (citas d c0 (fst r) (snd r))) d0 reqs))
        = drop 5 ts)"
proof (intro conjI impI)
  assume "esquema_ok d \<and> citas d c s m = (Inr k, d')"
  then show "\<exists>nueva borradas.
         strptime_datetime s = Some (fecha_cita nueva) \<and> paciente_cedula nueva = c \<and>
         motivo nueva = m \<and>
         k = length (tabla_cita d) + 1 - 20 \<and>
         borradas = take k (sort_key (\<lambda>x. clave_fecha (fecha_cita x)) (tabla_cita d @ [nueva])) \<and>
         length borradas = k \<and>
         tabla_cita d' = filter (\<lambda>x. x \<notin> set borradas) (tabla_cita d @ [nueva]) \<and>
         length (tabla_cita d') = length (tabla_cita d) + 1 - k \<and>
         length (tabla_cita d') \<le> 20 \<and>
         (\<forall>x \<in> set borradas. \<forall>y \<in> set (tabla_cita d').
             clave_fecha (fecha_cita x) \<le> clave_fecha (fecha_cita y)) \<and>
         tabla_paciente d' = tabla_paciente d"
    using citas_retencion_general [of d c s m k d'] by (elim conjE) blast
next
  assume h: "esquema_ok d0 \<and> tabla_cita d0 = [] \<and> p \<in> set (tabla_paciente d0) \<and> cedula p = c0 \<and>
    length reqs = 25 \<and> map (\<lambda>r. strptime_datetime (fst r)) reqs = map Some ts \<and>
    sorted_wrt (<) (map clave_fecha ts)"
  let ?df = "foldl (\<lambda>d r. snd (citas d c0 (fst r) (snd r))) d0 reqs"
  from h have l: "length ts = 25" by (metis length_map)
  have r: "map fecha_cita (tabla_cita ?df) = drop (length ts - 20) ts"
    using agendar_crecientes [of d0 p c0 reqs ts] h by blast
  then show "map fecha_cita (tabla_cita ?df) = drop 5 ts" by (simp add: l)
  have "length (map fecha_cita (tabla_cita ?df)) = length (drop (length ts - 20) ts)"
    by (simp only: r)
  then show "length (tabla_cita ?df) = 20" by (simp add: l)
qed


theorem citas_retencion_witness:
  "length (tabla_cita (snd (citas db_lleno ''V123'' ''2024-03-01T10:30'' ''Control''))) = 20 \<and>
   tabla_paciente (snd (citas db_lleno ''V123'' ''2024-03-01T10:30'' ''Control''))
     = tabla_paciente db_lleno \<and>
   length (tabla_cita (foldl (\<lambda>d r. snd (citas d ''V123'' (fst r) (snd r))) db_inicial solicitudes25)) = 20 \<and>
   map fecha_cita (tabla_cita (foldl (\<lambda>d r. snd (citas d ''V123'' (fst r) (snd r))) db_inicial solicitudes25))
     = drop 5 fechas25"
proof -
  let ?r = "citas db_lleno ''V123'' ''2024-03-01T10:30'' ''Control''"
  have l20: "length (tabla_cita db_lleno) = 20" by (simp add: db_lleno_def)
  have q: "paciente_por_cedula db_lleno ''V123'' = Some paciente_ana"
    by (simp add: paciente_por_cedula_def db_lleno_def paciente_ana_def)
  have "fst ?r = Inr 1"
    by (simp add: citas_exito [OF strptime_marzo q] Let_def l20)
  then have e: "?r = (Inr 1, snd ?r)" by (cases ?r) simp
  have 1: "esquema_ok db_lleno \<and> ?r = (Inr 1, snd ?r)" using esquema_lleno e by simp
  have 2: "esquema_ok db_inicial \<and> tabla_cita db_inicial = [] \<and>
     paciente_ana \<in> set (tabla_paciente db_inicial) \<and> cedula paciente_ana = ''V123'' \<and>
     length solicitudes25 = 25 \<and>
     map (\<lambda>r. strptime_datetime (fst r)) solicitudes25 = map Some fechas25 \<and>
     sorted_wrt (<) (map clave_fecha fechas25)"
    using esquema_inicial solicitudes25_parse fechas25_crecientes
    by (simp add: db_inicial_def paciente_ana_def solicitudes25_def)
  note T = citas_retencion [where d = db_lleno and c = "''V123''" and s = "''2024-03-01T10:30''"
      and m = "''Control''" and k = 1 and d' = "snd ?r" and ?d0.0 = db_inicial and p = paciente_ana
      and ?c0.0 = "''V123''" and reqs = solicitudes25 and ts = fechas25]
  from T [THEN conjunct1, THEN mp, OF 1]
  have a: "length (tabla_cita (snd ?r)) = length (tabla_cita db_lleno) + 1 - 1"
    and b: "tabla_paciente (snd ?r) = tabla_paciente db_lleno" by blast+
  from a have a': "length (tabla_cita (snd ?r)) = 20" by (simp add: l20)
  from T [THEN conjunct2, THEN mp, OF 2] a' b show ?thesis by simp
qed

section \<open>The birth date read back\<close>

text \<open>
  C9. For every text \<^verbatim>\<open>YYYY-MM-DD\<close> of eight digits that denotes a calendar date and every
  identifier not yet in use, \<open>registrar\<close> succeeds and the patient read back by that
  identifier has exactly that date as \<open>fecha_nacimiento\<close>: a year, a month and a day, with
  no time of day. The instance of the specification, \<^verbatim>\<open>1990-05-20\<close>, is the witness.
\<close>

theorem registrar_fecha_ida_y_vuelta:
  assumes "a \<in> set ''0123456789''" and "b \<in> set ''0123456789''"
    and "c \<in> set ''0123456789''" and "d \<in> set ''0123456789''"
    and "e \<in> set ''0123456789''" and "f \<in> set ''0123456789''"
    and "g \<in> set ''0123456789''" and "h \<in> set ''0123456789''"
    and "fecha_valida (1000 * digit_val a + 100 * digit_val b + 10 * digit_val c + digit_val d)
           (10 * digit_val e + digit_val f) (10 * digit_val g + digit_val h)"
    and "\<forall>p \<in> set (tabla_paciente db0). cedula p \<noteq> ced"
  shows "fst (registrar db0 n ced [a, b, c, d, CHR ''-'', e, f, CHR ''-'', g, h]) = Inr () \<and>
         map_option fecha_nacimiento
           (paciente_por_cedula
              (snd (registrar db0 n ced [a, b, c, d, CHR ''-'', e, f, CHR ''-'', g, h])) ced)
           = Some \<lparr>year = 1000 * digit_val a + 100 * digit_val b + 10 * digit_val c + digit_val d,
                   month = 10 * digit_val e + digit_val f, day = 10 * digit_val g + digit_val h\<rparr>"
proof -
  have n: "paciente_por_cedula db0 ced = None"
    by (rule paciente_por_cedula_None [OF assms(10)])
  then have fn: "find (\<lambda>p. cedula p = ced) (tabla_paciente db0) = None"
    by (simp add: paciente_por_cedula_def)
  define nuevo where "nuevo = \<lparr>paciente_id = nuevo_id (map paciente_id (tabla_paciente db0)),
      nombre = n, cedula = ced,
      fecha_nacimiento =
        \<lparr>year = 1000 * digit_val a + 100 * digit_val b + 10 * digit_val c + digit_val d,
         month = 10 * digit_val e + digit_val f, day = 10 * digit_val g + digit_val h\<rparr>\<rparr>"
  have r: "registrar db0 n ced [a, b, c, d, CHR ''-'', e, f, CHR ''-'', g, h] =
             (Inr (), db0\<lparr>tabla_paciente := tabla_paciente db0 @ [nuevo]\<rparr>)"
    by (simp add: registrar_def strptime_date_canonico [OF assms(1-9)] n nuevo_def)
  have "paciente_por_cedula (db0\<lparr>tabla_paciente := tabla_paciente db0 @ [nuevo]\<rparr>) ced
          = Some nuevo"
    by (simp add: paciente_por_cedula_def find_snoc_None [OF fn]) (simp add: nuevo_def)
  then show ?thesis by (simp add: r) (simp add: nuevo_def)
qed

theorem registrar_fecha_ida_y_vuelta_witness:
  "fst (registrar db_ejemplo ''Carla'' ''V789'' ''1990-05-20'') = Inr () \<and>
   map_option fecha_nacimiento
     (paciente_por_cedula (snd (registrar db_ejemplo ''Carla'' ''V789'' ''1990-05-20'')) ''V789'')
     = Some \<lparr>year = 1990, month = 5, day = 20\<rparr>"
proof -
  have 1: "\<forall>p \<in> set (tabla_paciente db_ejemplo). cedula p \<noteq> ''V789''"
    by (simp add: ejemplo_defs)
  have 2: "fecha_valida (1000 * digit_val CHR ''1'' + 100 * digit_val CHR ''9'' +
             10 * digit_val CHR ''9'' + digit_val CHR ''0'')
             (10 * digit_val CHR ''0'' + digit_val CHR ''5'')
             (10 * digit_val CHR ''2'' + digit_val CHR ''0'')"
    by (simp add: fecha_valida_def dias_del_mes_def es_bisiesto_def digit_val_def)
  show ?thesis
    using registrar_fecha_ida_y_vuelta [of "CHR ''1''" "CHR ''9''" "CHR ''9''" "CHR ''0''"
        "CHR ''0''" "CHR ''5''" "CHR ''2''" "CHR ''0''" db_ejemplo "''V789''" "''Carla''", OF _ _ _ _ _ _ _ _ 2 1]
    by (simp add: digit_val_def)
qed

end
